theory Spec2Isabelle
  imports Main
begin

section \<open>Data model of the service manager\<close>

text \<open>
  The embedding follows \<^verbatim>\<open>service/runtime/manager/manager.go\<close>. The manager
  coordinates collaborators whose code lives in other packages (the record store, the
  execution backend, the source checkout, the logger). They are taken as parameters:
  a record \<open>deps\<close> of functions over an arbitrary collaborator state \<open>'w\<close>, so every
  theorem below holds for every behaviour of the collaborators.
\<close>

text \<open>
  \<^verbatim>\<open>gorun.ServiceStatus\<close>; \<open>Unknown\<close> is the zero value, the one a composite
  literal that omits the field gets (the source tests \<^verbatim>\<open>s.Status != gorun.Unknown\<close>
  to see whether a status was set). The packages \<^verbatim>\<open>runtime\<close> and \<^verbatim>\<open>gorun\<close> share
  their types (the manager's methods take \<^verbatim>\<open>*runtime.Service\<close> and implement
  \<^verbatim>\<open>gorun.Runtime\<close>), so \<^verbatim>\<open>runtime.Starting\<close> and \<^verbatim>\<open>gorun.Pending\<close> are values of
  this one type.
\<close>

datatype ServiceStatus =
  Unknown | Pending | Building | Starting | Running | Stopping | Stopped | Error

text \<open>
  Go errors are compared by identity with the sentinels \<^verbatim>\<open>ErrNotFound\<close> and
  \<^verbatim>\<open>ErrAlreadyExists\<close>; every other error is \<open>ErrOther\<close> with its message.
  A Go \<^verbatim>\<open>error\<close> result is an \<open>error option\<close>, \<open>None\<close> being \<^verbatim>\<open>nil\<close>.
\<close>

datatype error = ErrNotFound | ErrAlreadyExists | ErrOther string

text \<open>
  \<^verbatim>\<open>time.Time\<close>, as nanoseconds since Go's zero instant, so that \<^verbatim>\<open>IsZero\<close> is
  equality with 0. The RFC3339 rendering is the Go library's and is a parameter.
\<close>

type_synonym Time = int

definition IsZero :: "Time \<Rightarrow> bool" where
  "IsZero t = (t = 0)"

text \<open>
  \<^verbatim>\<open>runtime.Service\<close>. A Go map is a reference that may be \<^verbatim>\<open>nil\<close>: the
  metadata is an optional map, \<open>None\<close> being the nil map.
\<close>

record runtime_Service =
  Name :: string
  Version :: string
  Source :: string
  Metadata :: "(string \<rightharpoonup> string) option"
  Status :: ServiceStatus

text \<open>
  The option structs, after the caller's functional options have been applied to the
  zero value (\<^verbatim>\<open>for _, o := range opts { o(&options) }\<close>). Only the fields that
  \<^verbatim>\<open>manager.go\<close> reads are kept.
\<close>

record CreateOptions =
  Namespace :: string

record ReadOptions =
  rNamespace :: string
  rService :: string
  rVersion :: string

record UpdateOptions =
  uNamespace :: string

record DeleteOptions =
  dNamespace :: string

text \<open>
  The manager's own \<^verbatim>\<open>service\<close> struct, with the fields \<^verbatim>\<open>manager.go\<close> sets and
  reads: \<^verbatim>\<open>Service\<close>, \<^verbatim>\<open>Options\<close>, \<^verbatim>\<open>Status\<close>, \<^verbatim>\<open>UpdatedAt\<close>, \<^verbatim>\<open>Error\<close>
  (\<open>sStatus\<close> and \<open>sError\<close> here, the plain names being taken).
\<close>

record service =
  Service :: runtime_Service
  Options :: CreateOptions
  sStatus :: ServiceStatus
  UpdatedAt :: Time
  sError :: string

datatype logarg = LStr string | LErr error

text \<open>
  Every synchronous call to a collaborator, with its arguments, in the order made.
\<close>

datatype call =
    CheckoutSource service
  | CreateServiceInRuntime service
  | UpdateServiceInRuntime service
  | WriteService service
  | DeleteService service
  | ReadServices string runtime_Service
  | ListNamespaces
  | Runtime_Read ReadOptions
  | Runtime_Delete runtime_Service DeleteOptions
  | runtime_Read string
  | DefaultRuntime_Start
  | DefaultRuntime_Stop
  | Warnf string "logarg list"
  | Errorf string "logarg list"

text \<open>The goroutines launched with \<^verbatim>\<open>go\<close>: they run after, not inside, the call.\<close>

datatype task =
    BuildAndRun service
  | BuildAndUpdate service
  | CleanupBlobStore service
  | WatchServices

text \<open>
  The collaborators. A helper that receives a \<^verbatim>\<open>*service\<close> may write through the
  pointer, so it returns the record as it leaves it, next to its Go results. A Go
  result pair \<^verbatim>\<open>(v, err)\<close> is a pair of a value and an \<open>error option\<close>.
\<close>

record 'w deps =
  DefaultNamespace :: string
  DefaultBuilder_nil :: bool
  time_Now :: "'w \<Rightarrow> Time"
  RFC3339 :: "Time \<Rightarrow> string"
  logger_V :: "'w \<Rightarrow> bool"
  checkoutSource :: "service \<Rightarrow> 'w \<Rightarrow> (string \<times> error option) \<times> service \<times> 'w"
  createServiceInRuntime :: "service \<Rightarrow> 'w \<Rightarrow> error option \<times> service \<times> 'w"
  updateServiceInRuntime :: "service \<Rightarrow> 'w \<Rightarrow> error option \<times> service \<times> 'w"
  writeService :: "service \<Rightarrow> 'w \<Rightarrow> error option \<times> service \<times> 'w"
  deleteService :: "service \<Rightarrow> 'w \<Rightarrow> error option \<times> service \<times> 'w"
  readServices :: "string \<Rightarrow> runtime_Service \<Rightarrow> 'w \<Rightarrow> (service list \<times> error option) \<times> 'w"
  listNamespaces :: "'w \<Rightarrow> (string list \<times> error option) \<times> 'w"
  mRuntime_Read :: "ReadOptions \<Rightarrow> 'w \<Rightarrow> (runtime_Service list \<times> error option) \<times> 'w"
  mRuntime_Delete :: "runtime_Service \<Rightarrow> DeleteOptions \<Rightarrow> 'w \<Rightarrow> error option \<times> 'w"
  runtimeRead :: "string \<Rightarrow> 'w \<Rightarrow> (runtime_Service list \<times> error option) \<times> 'w"
  DefaultRuntimeStart :: "'w \<Rightarrow> error option \<times> 'w"
  DefaultRuntimeStop :: "'w \<Rightarrow> error option \<times> 'w"

text \<open>
  What a call of the manager leaves behind: the collaborators' state \<open>ext\<close> (store,
  blob store, backend), the synchronous calls made so far and the goroutines launched.
\<close>

record 'w world =
  ext :: 'w
  calls :: "call list"
  spawned :: "task list"

text \<open>The \<^verbatim>\<open>manager\<close> struct: the flag next to the embedded runtime.\<close>

record manager =
  running :: bool

section \<open>Calling the collaborators\<close>

definition did :: "call \<Rightarrow> 'w \<Rightarrow> 'w world \<Rightarrow> 'w world" where
  "did c x w = w\<lparr>ext := x, calls := calls w @ [c]\<rparr>"

definition go :: "task \<Rightarrow> 'w world \<Rightarrow> 'w world" where
  "go t w = w\<lparr>spawned := spawned w @ [t]\<rparr>"

definition logged :: "call \<Rightarrow> 'w world \<Rightarrow> 'w world" where
  "logged c w = w\<lparr>calls := calls w @ [c]\<rparr>"

definition call_checkoutSource ::
  "'w deps \<Rightarrow> service \<Rightarrow> 'w world \<Rightarrow> (string \<times> error option) \<times> service \<times> 'w world" where
  "call_checkoutSource d s w =
     (case checkoutSource d s (ext w) of (r, s', x) \<Rightarrow> (r, s', did (CheckoutSource s) x w))"

definition call_createServiceInRuntime ::
  "'w deps \<Rightarrow> service \<Rightarrow> 'w world \<Rightarrow> error option \<times> service \<times> 'w world" where
  "call_createServiceInRuntime d s w =
     (case createServiceInRuntime d s (ext w) of
        (r, s', x) \<Rightarrow> (r, s', did (CreateServiceInRuntime s) x w))"

definition call_updateServiceInRuntime ::
  "'w deps \<Rightarrow> service \<Rightarrow> 'w world \<Rightarrow> error option \<times> service \<times> 'w world" where
  "call_updateServiceInRuntime d s w =
     (case updateServiceInRuntime d s (ext w) of
        (r, s', x) \<Rightarrow> (r, s', did (UpdateServiceInRuntime s) x w))"

definition call_writeService ::
  "'w deps \<Rightarrow> service \<Rightarrow> 'w world \<Rightarrow> error option \<times> service \<times> 'w world" where
  "call_writeService d s w =
     (case writeService d s (ext w) of (r, s', x) \<Rightarrow> (r, s', did (WriteService s) x w))"

definition call_deleteService ::
  "'w deps \<Rightarrow> service \<Rightarrow> 'w world \<Rightarrow> error option \<times> service \<times> 'w world" where
  "call_deleteService d s w =
     (case deleteService d s (ext w) of (r, s', x) \<Rightarrow> (r, s', did (DeleteService s) x w))"

definition call_readServices ::
  "'w deps \<Rightarrow> string \<Rightarrow> runtime_Service \<Rightarrow> 'w world \<Rightarrow> (service list \<times> error option) \<times> 'w world" where
  "call_readServices d ns f w =
     (case readServices d ns f (ext w) of (r, x) \<Rightarrow> (r, did (ReadServices ns f) x w))"

definition call_listNamespaces ::
  "'w deps \<Rightarrow> 'w world \<Rightarrow> (string list \<times> error option) \<times> 'w world" where
  "call_listNamespaces d w =
     (case listNamespaces d (ext w) of (r, x) \<Rightarrow> (r, did ListNamespaces x w))"

definition call_mRuntime_Read ::
  "'w deps \<Rightarrow> ReadOptions \<Rightarrow> 'w world \<Rightarrow> (runtime_Service list \<times> error option) \<times> 'w world" where
  "call_mRuntime_Read d opts w =
     (case mRuntime_Read d opts (ext w) of (r, x) \<Rightarrow> (r, did (Runtime_Read opts) x w))"

definition call_mRuntime_Delete ::
  "'w deps \<Rightarrow> runtime_Service \<Rightarrow> DeleteOptions \<Rightarrow> 'w world \<Rightarrow> error option \<times> 'w world" where
  "call_mRuntime_Delete d srv opts w =
     (case mRuntime_Delete d srv opts (ext w) of
        (r, x) \<Rightarrow> (r, did (Runtime_Delete srv opts) x w))"

definition call_runtimeRead ::
  "'w deps \<Rightarrow> string \<Rightarrow> 'w world \<Rightarrow> (runtime_Service list \<times> error option) \<times> 'w world" where
  "call_runtimeRead d ns w =
     (case runtimeRead d ns (ext w) of (r, x) \<Rightarrow> (r, did (runtime_Read ns) x w))"

definition call_DefaultRuntimeStart :: "'w deps \<Rightarrow> 'w world \<Rightarrow> error option \<times> 'w world" where
  "call_DefaultRuntimeStart d w =
     (case DefaultRuntimeStart d (ext w) of (r, x) \<Rightarrow> (r, did DefaultRuntime_Start x w))"

definition call_DefaultRuntimeStop :: "'w deps \<Rightarrow> 'w world \<Rightarrow> error option \<times> 'w world" where
  "call_DefaultRuntimeStop d w =
     (case DefaultRuntimeStop d (ext w) of (r, x) \<Rightarrow> (r, did DefaultRuntime_Stop x w))"

section \<open>Create\<close>

text \<open>
  \<^verbatim>\<open>&runtime.Service{Name: n, Version: v}\<close>: the other fields have their zero value.
\<close>

definition filter_Service :: "string \<Rightarrow> string \<Rightarrow> runtime_Service" where
  "filter_Service n v =
     \<lparr>Name = n, Version = v, Source = [], Metadata = None, Status = Unknown\<rparr>"

text \<open>
  Lines 16 to 38 of \<open>Create\<close>: the options and the defaults, then the record
  built around the caller's \<^verbatim>\<open>srv\<close>. The fields the composite literal omits
  (\<^verbatim>\<open>Status\<close>, \<^verbatim>\<open>Error\<close>) have their zero value.
\<close>

definition Create_service ::
  "'w deps \<Rightarrow> runtime_Service \<Rightarrow> CreateOptions \<Rightarrow> 'w world \<Rightarrow> service" where
  "Create_service d srv0 opts w =
     (let options = (if length (Namespace opts) = 0
                     then opts\<lparr>Namespace := DefaultNamespace d\<rparr> else opts);
          srv1 = (if Metadata srv0 = None then srv0\<lparr>Metadata := Some Map.empty\<rparr> else srv0);
          srv = (if length (Version srv1) = 0 then srv1\<lparr>Version := ''latest''\<rparr> else srv1)
      in \<lparr>Service = srv, Options = options, sStatus = Unknown,
          UpdatedAt = time_Now d (ext w), sError = []\<rparr>)"

text \<open>
  \<open>Create\<close> returns its Go error and the world it leaves. The caller's \<^verbatim>\<open>srv\<close> is
  the \<open>Service\<close> field of the record built from it (the struct holds the pointer), so
  \<^verbatim>\<open>srv.Source = ...\<close> writes that field.
\<close>

definition Create ::
  "'w deps \<Rightarrow> runtime_Service \<Rightarrow> CreateOptions \<Rightarrow> 'w world \<Rightarrow> error option \<times> 'w world" where
  "Create d srv0 opts w =
     (let service = Create_service d srv0 opts w
      in if DefaultBuilder_nil d then
           (case call_checkoutSource d service w of
              ((src, err), service1, w1) \<Rightarrow>
                (let service2 = service1\<lparr>Service := (Service service1)\<lparr>Source := src\<rparr>\<rparr>
                 in case err of
                      Some e \<Rightarrow> (Some e, w1)
                    | None \<Rightarrow>
                       (case call_createServiceInRuntime d service2 w1 of
                          (err2, service3, w2) \<Rightarrow>
                            if err2 \<noteq> None \<and> err2 \<noteq> Some ErrAlreadyExists then (err2, w2)
                            else (case call_writeService d service3 w2 of
                                    (err3, service4, w3) \<Rightarrow> (err3, w3)))))
         else
           (let service1 = service\<lparr>sStatus := Pending\<rparr>
            in case call_writeService d service1 w of
                 (err, service2, w1) \<Rightarrow>
                   (case err of
                      Some e \<Rightarrow> (Some e, w1)
                    | None \<Rightarrow> (None, go (BuildAndRun service2) w1))))"

section \<open>Read\<close>

text \<open>
  Reading a Go map gives the zero value for a missing key, also on the nil map;
  assigning to an entry of the nil map panics.
\<close>

datatype panic = NilMapAssignment

definition map_get :: "(string \<rightharpoonup> string) option \<Rightarrow> string \<Rightarrow> string" where
  "map_get m k = (case m of None \<Rightarrow> [] | Some f \<Rightarrow> (case f k of None \<Rightarrow> [] | Some v \<Rightarrow> v))"

definition set_Metadata :: "runtime_Service \<Rightarrow> string \<Rightarrow> string \<Rightarrow> panic + runtime_Service" where
  "set_Metadata r k v =
     (case Metadata r of
        None \<Rightarrow> Inl NilMapAssignment
      | Some f \<Rightarrow> Inr (r\<lparr>Metadata := Some (f(k \<mapsto> v))\<rparr>))"

text \<open>The key \<^verbatim>\<open>s.Name+":"+s.Version\<close> under which live services are grouped.\<close>

definition key :: "runtime_Service \<Rightarrow> string" where
  "key s = Name s @ '':'' @ Version s"

text \<open>
  \<^verbatim>\<open>for _, s := range rSrvs { rSrvMap[s.Name+":"+s.Version] = s }\<close>: a later
  entry replaces an earlier one with the same key.
\<close>

definition group_by_key :: "runtime_Service list \<Rightarrow> (string \<rightharpoonup> runtime_Service)" where
  "group_by_key rSrvs = fold (\<lambda>s m. m(key s \<mapsto> s)) rSrvs Map.empty"

text \<open>
  The body of the loop of \<open>Read\<close> for one stored record \<open>s\<close>: \<open>result[i]\<close> is the
  pointer \<^verbatim>\<open>s.Service\<close>, written through step by step.
\<close>

definition Read_merge ::
  "(Time \<Rightarrow> string) \<Rightarrow> (string \<rightharpoonup> runtime_Service) \<Rightarrow> service \<Rightarrow> panic + runtime_Service" where
  "Read_merge fmt rSrvMap s =
     (let r0 = Service s;
          r1 = (if sStatus s \<noteq> Unknown then r0\<lparr>Status := sStatus s\<rparr> else r0)
      in case (if length (sError s) > 0 then set_Metadata r1 ''error'' (sError s) else Inr r1) of
           Inl p \<Rightarrow> Inl p
         | Inr r2 \<Rightarrow>
            (case (if \<not> IsZero (UpdatedAt s)
                   then set_Metadata r2 ''started'' (fmt (UpdatedAt s)) else Inr r2) of
               Inl p \<Rightarrow> Inl p
             | Inr r3 \<Rightarrow>
                (case rSrvMap (key (Service s)) of
                   None \<Rightarrow> Inr r3
                 | Some rs \<Rightarrow>
                    (let r4 = r3\<lparr>Status := Status rs\<rparr>
                     in if Metadata rs \<noteq> None \<and> length (map_get (Metadata rs) ''error'') > 0
                        then set_Metadata r4 ''status'' (map_get (Metadata rs) ''error'')
                        else Inr r4))))"

fun Read_loop ::
  "(Time \<Rightarrow> string) \<Rightarrow> (string \<rightharpoonup> runtime_Service) \<Rightarrow> service list \<Rightarrow> panic + runtime_Service list" where
  "Read_loop fmt rSrvMap [] = Inr []"
| "Read_loop fmt rSrvMap (s # srvs) =
     (case Read_merge fmt rSrvMap s of
        Inl p \<Rightarrow> Inl p
      | Inr r \<Rightarrow>
         (case Read_loop fmt rSrvMap srvs of
            Inl p \<Rightarrow> Inl p
          | Inr rs \<Rightarrow> Inr (r # rs)))"

text \<open>
  \<open>Read\<close> either panics or returns the Go pair: the result slice (\<open>[]\<close> for
  \<^verbatim>\<open>nil\<close>) and the error.
\<close>

definition Read ::
  "'w deps \<Rightarrow> ReadOptions \<Rightarrow> 'w world \<Rightarrow> (panic + runtime_Service list \<times> error option) \<times> 'w world" where
  "Read d opts w =
     (let options = (if length (rNamespace opts) = 0
                     then opts\<lparr>rNamespace := DefaultNamespace d\<rparr> else opts)
      in case call_readServices d (rNamespace options)
                (filter_Service (rService options) (rVersion options)) w of
           ((srvs, err), w1) \<Rightarrow>
             (case err of
                Some e \<Rightarrow> (Inr ([], Some e), w1)
              | None \<Rightarrow>
                 (case call_mRuntime_Read d opts w1 of
                    ((rSrvs, err2), w2) \<Rightarrow>
                      (case err2 of
                         Some e \<Rightarrow> (Inr ([], Some e), w2)
                       | None \<Rightarrow>
                          (case Read_loop (RFC3339 d) (group_by_key rSrvs) srvs of
                             Inl p \<Rightarrow> (Inl p, w2)
                           | Inr result \<Rightarrow> (Inr (result, None), w2))))))"

section \<open>Update\<close>

definition Update ::
  "'w deps \<Rightarrow> runtime_Service \<Rightarrow> UpdateOptions \<Rightarrow> 'w world \<Rightarrow> error option \<times> 'w world" where
  "Update d srv0 opts w =
     (let options = (if length (uNamespace opts) = 0
                     then opts\<lparr>uNamespace := DefaultNamespace d\<rparr> else opts);
          srv = (if length (Version srv0) = 0 then srv0\<lparr>Version := ''latest''\<rparr> else srv0)
      in case call_readServices d (uNamespace options)
                (filter_Service (Name srv) (Version srv)) w of
           ((srvs, err), w1) \<Rightarrow>
             (case err of
                Some e \<Rightarrow> (Some e, w1)
              | None \<Rightarrow>
                 (case srvs of
                    [] \<Rightarrow> (Some ErrNotFound, w1)
                  | s0 # _ \<Rightarrow>
                     (let service = s0\<lparr>Service := (Service s0)\<lparr>Source := Source srv\<rparr>,
                                        UpdatedAt := time_Now d (ext w1)\<rparr>
                      in if DefaultBuilder_nil d then
                           (case call_checkoutSource d service w1 of
                              ((src, err1), service1, w2) \<Rightarrow>
                                (let service2 =
                                       service1\<lparr>Service := (Service service1)\<lparr>Source := src\<rparr>\<rparr>
                                 in case err1 of
                                      Some e \<Rightarrow> (Some e, w2)
                                    | None \<Rightarrow>
                                       (case call_updateServiceInRuntime d service2 w2 of
                                          (err2, service3, w3) \<Rightarrow>
                                            (case err2 of
                                               Some e \<Rightarrow> (Some e, w3)
                                             | None \<Rightarrow>
                                                (let service4 =
                                                       service3\<lparr>sStatus := Starting, sError := []\<rparr>
                                                 in case call_writeService d service4 w3 of
                                                      (err3, service5, w4) \<Rightarrow> (err3, w4))))))
                         else
                           (let service1 = service\<lparr>sStatus := Pending\<rparr>
                            in case call_writeService d service1 w1 of
                                 (err1, service2, w2) \<Rightarrow>
                                   (case err1 of
                                      Some e \<Rightarrow> (Some e, w2)
                                    | None \<Rightarrow> (None, go (BuildAndUpdate service2) w2)))))))"

section \<open>Delete\<close>

definition Delete ::
  "'w deps \<Rightarrow> runtime_Service \<Rightarrow> DeleteOptions \<Rightarrow> 'w world \<Rightarrow> error option \<times> 'w world" where
  "Delete d srv0 opts w =
     (let options = (if length (dNamespace opts) = 0
                     then opts\<lparr>dNamespace := DefaultNamespace d\<rparr> else opts);
          srv = (if length (Version srv0) = 0 then srv0\<lparr>Version := ''latest''\<rparr> else srv0)
      in case call_readServices d (dNamespace options)
                (filter_Service (Name srv) (Version srv)) w of
           ((srvs, err), w1) \<Rightarrow>
             (case err of
                Some e \<Rightarrow> (Some e, w1)
              | None \<Rightarrow>
                 (case srvs of
                    [] \<Rightarrow> (Some ErrNotFound, w1)
                  | s0 # _ \<Rightarrow>
                     (case call_mRuntime_Delete d srv opts w1 of
                        (err1, w2) \<Rightarrow>
                          if err1 \<noteq> None \<and> err1 \<noteq> Some ErrNotFound then (err1, w2)
                          else (case call_deleteService d s0 w2 of
                                  (err2, s1, w3) \<Rightarrow>
                                    (case err2 of
                                       Some e \<Rightarrow> (Some e, w3)
                                     | None \<Rightarrow> (None, go (CleanupBlobStore s1) w3)))))))"

section \<open>Start, Stop and the reconciliation pass\<close>

definition Start ::
  "'w deps \<Rightarrow> manager \<Rightarrow> 'w world \<Rightarrow> error option \<times> manager \<times> 'w world" where
  "Start d m w =
     (if running m then (None, m, w)
      else (let m1 = m\<lparr>running := True\<rparr>
            in case call_DefaultRuntimeStart d w of
                 (err, w1) \<Rightarrow>
                   (case err of
                      Some e \<Rightarrow> (Some e, m1, w1)
                    | None \<Rightarrow> (None, m1, go WatchServices w1))))"

definition Stop ::
  "'w deps \<Rightarrow> manager \<Rightarrow> 'w world \<Rightarrow> error option \<times> manager \<times> 'w world" where
  "Stop d m w =
     (if \<not> running m then (None, m, w)
      else (let m1 = m\<lparr>running := False\<rparr>
            in case call_DefaultRuntimeStop d w of (err, w1) \<Rightarrow> (err, m1, w1)))"

text \<open>
  The inner loop of \<open>watchServices\<close> over the stored services of one namespace;
  \<open>live\<close> is the map \<^verbatim>\<open>running\<close> of the source. Each \<^verbatim>\<open>continue\<close> is the
  recursive call on the rest.
\<close>

fun watch_srvs ::
  "'w deps \<Rightarrow> (string \<rightharpoonup> runtime_Service) \<Rightarrow> service list \<Rightarrow> 'w world \<Rightarrow> 'w world" where
  "watch_srvs d live [] w = w"
| "watch_srvs d live (srv # srvs) w =
     (if live (key (Service srv)) \<noteq> None then watch_srvs d live srvs w
      else if sStatus srv = Error then watch_srvs d live srvs w
      else if sStatus srv = Building then watch_srvs d live srvs w
      else if sStatus srv = Stopped then watch_srvs d live srvs w
      else (case call_createServiceInRuntime d srv w of
              (err, srv1, w1) \<Rightarrow>
                (case err of
                   None \<Rightarrow> watch_srvs d live srvs w1
                 | Some e \<Rightarrow>
                    if logger_V d (ext w1)
                    then watch_srvs d live srvs
                           (logged (Errorf ''Error restarting service: %v'' [LErr e]) w1)
                    else watch_srvs d live srvs w1)))"

text \<open>
  The outer loop over the namespaces. A failed read of the stored services ends the
  pass (\<^verbatim>\<open>return\<close>): there is no recursive call in that branch. The error of
  \<^verbatim>\<open>runtime.Read\<close> is dropped by the source (\<^verbatim>\<open>curr, _ := ...\<close>).
\<close>

fun watch_nss :: "'w deps \<Rightarrow> string list \<Rightarrow> 'w world \<Rightarrow> 'w world" where
  "watch_nss d [] w = w"
| "watch_nss d (ns # nss) w =
     (case call_readServices d ns (filter_Service [] []) w of
        ((srvs, err), w1) \<Rightarrow>
          (case err of
             Some e \<Rightarrow>
               logged (Warnf ''Error reading services from the %v namespace: %v'' [LStr ns, LErr e]) w1
           | None \<Rightarrow>
              (case call_runtimeRead d ns w1 of
                 ((cur, err1), w2) \<Rightarrow>
                   watch_nss d nss (watch_srvs d (group_by_key cur) srvs w2))))"

definition watchServices :: "'w deps \<Rightarrow> 'w world \<Rightarrow> 'w world" where
  "watchServices d w =
     (case call_listNamespaces d w of
        ((nss, err), w1) \<Rightarrow>
          (case err of
             Some e \<Rightarrow> logged (Warnf ''Error listing namespaces: %v'' [LErr e]) w1
           | None \<Rightarrow> watch_nss d nss w1))"

section \<open>Traces and sample collaborators\<close>

text \<open>The calls made between an earlier world \<open>w\<close> and a later one \<open>w'\<close>.\<close>

definition calls_since :: "'w world \<Rightarrow> 'w world \<Rightarrow> call list" where
  "calls_since w w' = drop (length (calls w)) (calls w')"

text \<open>
  Concrete collaborators on which the theorems are instantiated: a stateless
  environment in which every call succeeds and the store and the backend are empty,
  and variants of it.
\<close>

definition env0 :: "unit deps" where
  "env0 =
     \<lparr>DefaultNamespace = ''micro'', DefaultBuilder_nil = True,
      time_Now = (\<lambda>x. 1), RFC3339 = (\<lambda>t. ''2020-07-01T12:00:00Z''),
      logger_V = (\<lambda>x. True),
      checkoutSource = (\<lambda>s x. ((Source (Service s), None), s, x)),
      createServiceInRuntime = (\<lambda>s x. (None, s, x)),
      updateServiceInRuntime = (\<lambda>s x. (None, s, x)),
      writeService = (\<lambda>s x. (None, s, x)),
      deleteService = (\<lambda>s x. (None, s, x)),
      readServices = (\<lambda>ns f x. (([], None), x)),
      listNamespaces = (\<lambda>x. (([], None), x)),
      mRuntime_Read = (\<lambda>opts x. (([], None), x)),
      mRuntime_Delete = (\<lambda>srv opts x. (None, x)),
      runtimeRead = (\<lambda>ns x. (([], None), x)),
      DefaultRuntimeStart = (\<lambda>x. (None, x)),
      DefaultRuntimeStop = (\<lambda>x. (None, x))\<rparr>"

definition w0 :: "unit world" where
  "w0 = \<lparr>ext = (), calls = [], spawned = []\<rparr>"

definition billing :: runtime_Service where
  "billing =
     \<lparr>Name = ''billing'', Version = [], Source = ''./billing'', Metadata = None,
      Status = Unknown\<rparr>"

definition update_billing :: runtime_Service where
  "update_billing =
     \<lparr>Name = ''billing'', Version = [], Source = ''./billing-v2'', Metadata = None,
      Status = Unknown\<rparr>"

definition delete_billing :: runtime_Service where
  "delete_billing =
     \<lparr>Name = ''billing'', Version = ''latest'', Source = [], Metadata = None,
      Status = Unknown\<rparr>"

definition stored_billing :: service where
  "stored_billing =
     \<lparr>Service = \<lparr>Name = ''billing'', Version = ''latest'', Source = ''./billing'',
                  Metadata = Some Map.empty, Status = Unknown\<rparr>,
      Options = \<lparr>Namespace = ''micro''\<rparr>, sStatus = Unknown, UpdatedAt = 1, sError = []\<rparr>"

definition stored_web :: service where
  "stored_web =
     \<lparr>Service = \<lparr>Name = ''web'', Version = ''latest'', Source = ''./web'',
                  Metadata = Some Map.empty, Status = Unknown\<rparr>,
      Options = \<lparr>Namespace = ''micro''\<rparr>, sStatus = Error, UpdatedAt = 1,
      sError = ''build failed''\<rparr>"

definition live_billing :: runtime_Service where
  "live_billing =
     \<lparr>Name = ''billing'', Version = ''latest'', Source = ''./billing'',
      Metadata = None, Status = Running\<rparr>"

definition all_services :: ReadOptions where
  "all_services = \<lparr>rNamespace = [], rService = [], rVersion = []\<rparr>"

text \<open>The store holds \<open>srvs\<close> and the backend reports \<open>rSrvs\<close>.\<close>

definition env_read :: "service list \<Rightarrow> runtime_Service list \<Rightarrow> unit deps" where
  "env_read srvs rSrvs =
     env0\<lparr>readServices := (\<lambda>ns f x. ((srvs, None), x)),
          mRuntime_Read := (\<lambda>opts x. ((rSrvs, None), x)),
          runtimeRead := (\<lambda>ns x. ((rSrvs, None), x))\<rparr>"

text \<open>A Builder is configured.\<close>

definition env_builder :: "unit deps" where
  "env_builder = env0\<lparr>DefaultBuilder_nil := False\<rparr>"

text \<open>
  The backend already runs the service: it answers \<^verbatim>\<open>ErrAlreadyExists\<close> and marks
  the record it was handed as running.
\<close>

definition env_exists :: "unit deps" where
  "env_exists =
     env0\<lparr>createServiceInRuntime :=
            (\<lambda>s x. (Some ErrAlreadyExists, s\<lparr>Service := (Service s)\<lparr>Status := Running\<rparr>\<rparr>, x))\<rparr>"

text \<open>The backend refuses every deletion with the given error.\<close>

definition env_delete :: "error \<Rightarrow> unit deps" where
  "env_delete e =
     (env_read [stored_billing] [live_billing])\<lparr>mRuntime_Delete := (\<lambda>srv opts x. (Some e, x))\<rparr>"

text \<open>
  Two namespaces; the store cannot be read for \<open>staging\<close>, and the backend refuses
  every creation.
\<close>

definition env_pass :: "unit deps" where
  "env_pass =
     env0\<lparr>listNamespaces := (\<lambda>x. (([''staging'', ''micro''], None), x)),
          readServices :=
            (\<lambda>ns f x. if ns = ''staging'' then (([], Some (ErrOther ''store unavailable'')), x)
                        else (([stored_web, stored_billing], None), x)),
          createServiceInRuntime := (\<lambda>s x. (Some (ErrOther ''no capacity''), s, x))\<rparr>"

definition env_micro :: "unit deps" where
  "env_micro = env_pass\<lparr>listNamespaces := (\<lambda>x. (([''micro''], None), x))\<rparr>"

text \<open>
  A sample rendering of instants, by whole seconds since the zero instant, and a
  store and a backend read through it: \<open>billing\<close> was updated two seconds after
  the zero instant.
\<close>

definition sample_RFC3339 :: "Time \<Rightarrow> string" where
  "sample_RFC3339 t =
     (if t div 1000000000 = 2 then ''0001-01-01T00:00:02Z''
      else if t div 1000000000 = 1 then ''0001-01-01T00:00:01Z''
      else ''0001-01-01T00:00:00Z'')"

definition updated_billing :: service where
  "updated_billing = stored_billing\<lparr>UpdatedAt := 2000000000\<rparr>"

definition env_clock :: "service list \<Rightarrow> runtime_Service list \<Rightarrow> unit deps" where
  "env_clock srvs rSrvs = (env_read srvs rSrvs)\<lparr>RFC3339 := sample_RFC3339\<rparr>"

section \<open>Create with a Builder\<close>

lemma Create_service_Metadata: "Metadata (Service (Create_service d srv opts w)) \<noteq> None"
  by (simp add: Create_service_def Let_def)

text \<open>
  C1. When a Builder is configured, \<open>Create\<close> sets the status of the record it
  built to \<open>Pending\<close> and makes exactly one synchronous call, the store write of
  that record: no checkout, no build and no backend call. It returns what the write
  returned, so an error only if the write failed (defaulting the options cannot
  fail). When the write succeeds the build is handed to a goroutine, which is only
  recorded as launched: nothing it does reaches the value \<open>Create\<close> returns.
\<close>

theorem Create_with_builder:
  assumes "\<not> DefaultBuilder_nil d"
    and "service = (Create_service d srv opts w)\<lparr>sStatus := Pending\<rparr>"
    and "writeService d service (ext w) = (err, service', x)"
  shows "sStatus service = Pending
       \<and> fst (Create d srv opts w) = err
       \<and> calls (snd (Create d srv opts w)) = calls w @ [WriteService service]
       \<and> ext (snd (Create d srv opts w)) = x
       \<and> spawned (snd (Create d srv opts w)) =
           (if err = None then spawned w @ [BuildAndRun service'] else spawned w)"
  using assms
  by (cases err) (simp_all add: Create_def call_writeService_def did_def go_def)

text \<open>
  The theorem at the service \<open>billing\<close> with a Builder configured: the record is
  written as \<open>Pending\<close>, \<open>Create\<close> succeeds and the build is launched.
\<close>

theorem Create_with_builder_witness:
  "\<not> DefaultBuilder_nil env_builder
   \<and> fst (Create env_builder billing \<lparr>Namespace = []\<rparr> w0) = None
   \<and> calls (snd (Create env_builder billing \<lparr>Namespace = []\<rparr> w0)) =
       [WriteService
          \<lparr>Service = billing\<lparr>Version := ''latest'', Metadata := Some Map.empty\<rparr>,
           Options = \<lparr>Namespace = ''micro''\<rparr>, sStatus = Pending, UpdatedAt = 1,
           sError = []\<rparr>]
   \<and> spawned (snd (Create env_builder billing \<lparr>Namespace = []\<rparr> w0)) =
       [BuildAndRun
          \<lparr>Service = billing\<lparr>Version := ''latest'', Metadata := Some Map.empty\<rparr>,
           Options = \<lparr>Namespace = ''micro''\<rparr>, sStatus = Pending, UpdatedAt = 1,
           sError = []\<rparr>]"
  using Create_with_builder [of env_builder _ billing "\<lparr>Namespace = []\<rparr>" w0 None _ "()",
          OF _ refl]
  by (simp add: env_builder_def env0_def w0_def billing_def Create_service_def)

section \<open>Properties of Read\<close>

lemma fold_key_Some:
  "fold (\<lambda>s m. m(key s \<mapsto> s)) xs m0 k = Some v \<Longrightarrow> (v \<in> set xs \<and> key v = k) \<or> m0 k = Some v"
proof (induction xs arbitrary: m0)
  case Nil
  then show ?case by simp
next
  case (Cons x xs)
  from Cons.prems have "fold (\<lambda>s m. m(key s \<mapsto> s)) xs (m0(key x \<mapsto> x)) k = Some v"
    by (simp only: fold_Cons o_apply)
  from Cons.IH [OF this] show ?case
    by (auto split: if_splits)
qed

text \<open>
  The live service found under a key is one the backend listed, with that key; a
  service the backend lists once under its key is the one found.
\<close>

lemma group_by_key_Some:
  assumes "group_by_key xs k = Some v"
  shows "v \<in> set xs \<and> key v = k"
  using fold_key_Some [of xs Map.empty k v] assms
  by (simp add: group_by_key_def)

lemma group_by_key_listed:
  assumes "rs \<in> set xs"
  shows "\<exists>v. group_by_key xs (key rs) = Some v"
proof -
  have "dom (group_by_key xs) = key ` set xs"
  proof -
    have "dom (fold (\<lambda>s m. m(key s \<mapsto> s)) xs m0) = dom m0 \<union> key ` set xs" for m0
      by (induction xs arbitrary: m0) auto
    from this [of Map.empty] show ?thesis
      by (simp only: group_by_key_def dom_empty Un_empty_left)
  qed
  then have "key rs \<in> dom (group_by_key xs)"
    using assms by (metis imageI)
  then show ?thesis by (simp only: domIff not_None_eq)
qed

lemma group_by_key_unique:
  assumes "rs \<in> set xs" and "\<forall>v\<in>set xs. key v = key rs \<longrightarrow> v = rs"
  shows "group_by_key xs (key rs) = Some rs"
proof -
  from group_by_key_listed [OF assms(1)] obtain v where v: "group_by_key xs (key rs) = Some v"
    by blast
  from group_by_key_Some [OF v] assms(2) have "v = rs" by blast
  with v show ?thesis by simp
qed

lemma Read_merge_returns:
  assumes "Metadata (Service s) \<noteq> None"
  shows "\<exists>r. Read_merge fmt m s = Inr r"
proof -
  from assms obtain f where f: "Metadata (Service s) = Some f" by auto
  show ?thesis
    by (auto simp add: Read_merge_def Let_def set_Metadata_def f split: option.splits)
qed

lemma Read_loop_returns:
  assumes "\<forall>s\<in>set srvs. Metadata (Service s) \<noteq> None"
  shows "\<exists>result. Read_loop fmt m srvs = Inr result \<and> length result = length srvs
           \<and> (\<forall>i<length srvs. Read_merge fmt m (srvs ! i) = Inr (result ! i))"
  using assms
proof (induction srvs)
  case Nil
  then show ?case by simp
next
  case (Cons s srvs)
  from Cons.prems obtain r where r: "Read_merge fmt m s = Inr r"
    using Read_merge_returns [of s fmt m] by auto
  from Cons obtain rs where rs: "Read_loop fmt m srvs = Inr rs" "length rs = length srvs"
    "\<forall>i<length srvs. Read_merge fmt m (srvs ! i) = Inr (rs ! i)" by auto
  show ?case
    using r rs by (auto simp add: nth_Cons split: nat.splits)
qed

lemma Read_merge_live_Running:
  assumes "Metadata (Service s) \<noteq> None"
    and "\<not> IsZero (UpdatedAt s)"
    and "m (key (Service s)) = Some rs"
    and "Status rs = Running"
    and "Read_merge fmt m s = Inr r"
  shows "Status r = Running
       \<and> (\<exists>f. Metadata r = Some f \<and> f ''started'' = Some (fmt (UpdatedAt s)))"
proof -
  from assms(1) obtain f where f: "Metadata (Service s) = Some f" by auto
  show ?thesis
    using assms(2-5)
    by (auto simp add: Read_merge_def Let_def set_Metadata_def f split: if_splits)
qed

text \<open>
  What \<open>Read\<close> returns for the \<open>i\<close>-th stored record when the map of live services
  has a running entry under the record's key.
\<close>

lemma Read_found_Running_started:
  assumes "readServices d
             (if length (rNamespace opts) = 0 then DefaultNamespace d else rNamespace opts)
             (filter_Service (rService opts) (rVersion opts)) (ext w) = ((srvs, None), x1)"
    and "mRuntime_Read d opts x1 = ((rSrvs, None), x2)"
    and "\<forall>s\<in>set srvs. Metadata (Service s) \<noteq> None"
    and "i < length srvs"
    and "UpdatedAt (srvs ! i) = T" and "\<not> IsZero T"
    and "group_by_key rSrvs (key (Service (srvs ! i))) = Some rs"
    and "Status rs = Running"
  shows "\<exists>result. fst (Read d opts w) = Inr (result, None) \<and> length result = length srvs
           \<and> Status (result ! i) = Running
           \<and> (\<exists>f. Metadata (result ! i) = Some f \<and> f ''started'' = Some (RFC3339 d T))"
proof -
  from Read_loop_returns [OF assms(3), of "RFC3339 d" "group_by_key rSrvs"]
  obtain result where res: "Read_loop (RFC3339 d) (group_by_key rSrvs) srvs = Inr result"
    "length result = length srvs"
    "\<forall>i<length srvs. Read_merge (RFC3339 d) (group_by_key rSrvs) (srvs ! i) = Inr (result ! i)"
    by blast
  have mi: "Read_merge (RFC3339 d) (group_by_key rSrvs) (srvs ! i) = Inr (result ! i)"
    using res(3) assms(4) by simp
  have nn: "Metadata (Service (srvs ! i)) \<noteq> None"
    using assms(3,4) by simp
  have nz: "\<not> IsZero (UpdatedAt (srvs ! i))"
    using assms(5,6) by simp
  have R: "fst (Read d opts w) = Inr (result, None)"
    using assms(1,2) res(1)
    by (simp add: Read_def Let_def call_readServices_def call_mRuntime_Read_def did_def
             split: if_splits)
  from Read_merge_live_Running [OF nn nz assms(7,8) mi] assms(5)
  show ?thesis using R res(2) by auto
qed

text \<open>
  The entry of the map under a key is the last service the backend lists under it.
\<close>

lemma fold_key_other:
  "\<forall>v\<in>set xs. key v \<noteq> k \<Longrightarrow> fold (\<lambda>s m. m(key s \<mapsto> s)) xs m0 k = m0 k"
proof (induction xs arbitrary: m0)
  case Nil
  then show ?case by simp
next
  case (Cons x xs)
  from Cons.prems have xs: "\<forall>v\<in>set xs. key v \<noteq> k" and x: "key x \<noteq> k"
    by simp_all
  have "fold (\<lambda>s m. m(key s \<mapsto> s)) (x # xs) m0 k =
          fold (\<lambda>s m. m(key s \<mapsto> s)) xs (m0(key x \<mapsto> x)) k"
    by (simp only: fold_Cons o_apply)
  also have "\<dots> = (m0(key x \<mapsto> x)) k"
    by (rule Cons.IH [OF xs])
  also have "\<dots> = m0 k"
    using x by simp
  finally show ?case .
qed

lemma group_by_key_last:
  assumes "\<forall>v\<in>set post. key v \<noteq> key rs"
  shows "group_by_key (pre @ rs # post) (key rs) = Some rs"
proof -
  have "group_by_key (pre @ rs # post) (key rs) =
          fold (\<lambda>s m. m(key s \<mapsto> s)) post
            ((fold (\<lambda>s m. m(key s \<mapsto> s)) pre Map.empty)(key rs \<mapsto> rs)) (key rs)"
    by (simp only: group_by_key_def fold_append fold_Cons o_apply)
  also have "\<dots> = ((fold (\<lambda>s m. m(key s \<mapsto> s)) pre Map.empty)(key rs \<mapsto> rs)) (key rs)"
    using fold_key_other [OF assms] by blast
  also have "\<dots> = Some rs" by simp
  finally show ?thesis .
qed

text \<open>
  C2, amended. Let the store return the records \<open>srvs\<close> and the backend the live
  services \<open>rSrvs\<close>, both without error, and let the \<open>i\<close>-th stored record have a
  non-zero \<open>UpdatedAt = T\<close>. Let the backend's answer list a service \<open>rs\<close> with the
  name and the version of that record and status \<open>Running\<close>, and after \<open>rs\<close> no
  service under the same \<^verbatim>\<open>name:version\<close> key. Then \<open>Read\<close> returns a result, of
  the length of \<open>srvs\<close>, whose \<open>i\<close>-th record has status \<open>Running\<close> and metadata
  with \<open>started\<close> bound to the RFC3339 rendering of \<open>T\<close>. Stored records carry a
  non-nil metadata map, which is what \<open>Create\<close> gives every record before it is
  written (\<open>Create_service_Metadata\<close>): on a nil map the assignment
  \<^verbatim>\<open>Metadata["started"] = ...\<close> would panic.
\<close>

theorem Read_live_Running_started:
  assumes "readServices d
             (if length (rNamespace opts) = 0 then DefaultNamespace d else rNamespace opts)
             (filter_Service (rService opts) (rVersion opts)) (ext w) = ((srvs, None), x1)"
    and "mRuntime_Read d opts x1 = ((pre @ rs # post, None), x2)"
    and "\<forall>s\<in>set srvs. Metadata (Service s) \<noteq> None"
    and "i < length srvs"
    and "UpdatedAt (srvs ! i) = T" and "\<not> IsZero T"
    and "Name rs = Name (Service (srvs ! i))"
    and "Version rs = Version (Service (srvs ! i))"
    and "Status rs = Running"
    and "\<forall>v\<in>set post. key v \<noteq> key rs"
  shows "\<exists>result. fst (Read d opts w) = Inr (result, None) \<and> length result = length srvs
           \<and> Status (result ! i) = Running
           \<and> (\<exists>f. Metadata (result ! i) = Some f \<and> f ''started'' = Some (RFC3339 d T))"
proof -
  have "key (Service (srvs ! i)) = key rs"
    using assms(7,8) by (simp add: key_def)
  then have found: "group_by_key (pre @ rs # post) (key (Service (srvs ! i))) = Some rs"
    using group_by_key_last [OF assms(10), of pre] by simp
  from Read_found_Running_started [OF assms(1,2,3,4,5,6) found assms(9)]
  show ?thesis .
qed

text \<open>
  The theorem on a store holding \<open>billing\<close>, updated two seconds after the zero
  instant, for which the backend lists a stopping instance and, after it, a running
  one.
\<close>

theorem Read_live_Running_started_witness:
  "Metadata (Service updated_billing) \<noteq> None
   \<and> \<not> IsZero (UpdatedAt updated_billing)
   \<and> Name live_billing = Name (Service updated_billing)
   \<and> Version live_billing = Version (Service updated_billing)
   \<and> Status live_billing = Running
   \<and> (\<exists>result.
         fst (Read (env_clock [updated_billing] [live_billing\<lparr>Status := Stopping\<rparr>, live_billing])
                all_services w0) = Inr (result, None)
       \<and> length result = 1 \<and> Status (result ! 0) = Running
       \<and> (\<exists>f. Metadata (result ! 0) = Some f \<and> f ''started'' = Some ''0001-01-01T00:00:02Z''))"
  using Read_live_Running_started
          [of "env_clock [updated_billing] [live_billing\<lparr>Status := Stopping\<rparr>, live_billing]"
              all_services w0 "[updated_billing]" "()" "[live_billing\<lparr>Status := Stopping\<rparr>]"
              live_billing "[]" "()" 0 2000000000]
  by (simp add: env_clock_def env_read_def env0_def all_services_def w0_def updated_billing_def
        stored_billing_def live_billing_def IsZero_def sample_RFC3339_def)

text \<open>
  C2 as stated fails: the store holds \<open>billing\<close> with a non-zero \<open>UpdatedAt\<close>, and
  the backend lists \<open>billing\<close> with the same name and version twice, first with
  status \<open>Running\<close>, then with status \<open>Stopping\<close>. The later entry replaces the
  earlier one in the map of live services, and \<open>Read\<close> returns the record with
  status \<open>Stopping\<close>.
\<close>

theorem Read_later_listing_replaces_Running:
  "Name live_billing = Name (Service updated_billing)
   \<and> Version live_billing = Version (Service updated_billing)
   \<and> Status live_billing = Running
   \<and> \<not> IsZero (UpdatedAt updated_billing)
   \<and> fst (Read (env_clock [updated_billing] [live_billing, live_billing\<lparr>Status := Stopping\<rparr>])
            all_services w0)
      = Inr ([\<lparr>Name = ''billing'', Version = ''latest'', Source = ''./billing'',
               Metadata = Some [''started'' \<mapsto> ''0001-01-01T00:00:02Z''],
               Status = Stopping\<rparr>], None)"
  by (simp add: Read_def Let_def call_readServices_def call_mRuntime_Read_def did_def
        env_clock_def env_read_def env0_def all_services_def w0_def updated_billing_def
        stored_billing_def live_billing_def group_by_key_def key_def IsZero_def
        Read_merge_def set_Metadata_def map_get_def filter_Service_def sample_RFC3339_def)

text \<open>
  C3. The store holds \<open>billing\<close> with status \<open>Error\<close> and the error message
  \<open>build failed\<close>; the backend reports it live with status \<open>Error\<close> and the error
  annotation \<open>crashed\<close>. \<open>Read\<close> takes the live status, but it files the live
  annotation under the metadata key \<open>status\<close>: the key \<open>error\<close> still holds the
  stored message, and without a stored message it would be absent.
\<close>

theorem Read_live_error_under_status_key:
  "fst (Read (env_read
               [stored_billing\<lparr>sStatus := Error, sError := ''build failed''\<rparr>]
               [live_billing\<lparr>Status := Error, Metadata := Some [''error'' \<mapsto> ''crashed'']\<rparr>])
          all_services w0)
   = Inr ([\<lparr>Name = ''billing'', Version = ''latest'', Source = ''./billing'',
            Metadata = Some [''error'' \<mapsto> ''build failed'',
                             ''started'' \<mapsto> ''2020-07-01T12:00:00Z'',
                             ''status'' \<mapsto> ''crashed''],
            Status = Error\<rparr>], None)"
  by (simp add: Read_def Let_def call_readServices_def call_mRuntime_Read_def did_def
        env_read_def env0_def all_services_def w0_def stored_billing_def live_billing_def
        group_by_key_def key_def IsZero_def Read_merge_def set_Metadata_def map_get_def
        filter_Service_def)

section \<open>Create and Update without a Builder\<close>

text \<open>
  C6. Without a Builder, \<open>Create\<close> checks out the source, creates the service in
  the backend and writes the record, in this order. A backend answer of
  \<^verbatim>\<open>ErrAlreadyExists\<close> is treated like success: the store write follows and \<open>Create\<close>
  returns what the write returned. The record written is \<open>service3\<close>, the record as
  the backend call left it: \<open>Create\<close> assigns no status of its own on this path, so
  the status persisted is the one the backend gave it. Any other backend error, and
  any checkout error, is returned with no store write.
\<close>

theorem Create_without_builder:
  assumes "DefaultBuilder_nil d"
    and "service = Create_service d srv opts w"
    and "checkoutSource d service (ext w) = ((src, err1), service1, x1)"
    and "service2 = service1\<lparr>Service := (Service service1)\<lparr>Source := src\<rparr>\<rparr>"
    and "createServiceInRuntime d service2 x1 = (err2, service3, x2)"
    and "writeService d service3 x2 = (err3, service4, x3)"
  shows
    "(err1 = None \<and> (err2 = None \<or> err2 = Some ErrAlreadyExists) \<longrightarrow>
        Create d srv opts w =
          (err3, w\<lparr>ext := x3,
                   calls := calls w @ [CheckoutSource service, CreateServiceInRuntime service2,
                                       WriteService service3]\<rparr>))
   \<and> (err1 = None \<and> err2 \<noteq> None \<and> err2 \<noteq> Some ErrAlreadyExists \<longrightarrow>
        Create d srv opts w =
          (err2, w\<lparr>ext := x2,
                   calls := calls w @ [CheckoutSource service, CreateServiceInRuntime service2]\<rparr>))
   \<and> (err1 \<noteq> None \<longrightarrow>
        Create d srv opts w =
          (err1, w\<lparr>ext := x1, calls := calls w @ [CheckoutSource service]\<rparr>))"
proof -
  consider (src_fail) e where "err1 = Some e"
    | (created) "err1 = None" "err2 = None"
    | (exists) "err1 = None" "err2 = Some ErrAlreadyExists"
    | (fail) e where "err1 = None" "err2 = Some e" "e \<noteq> ErrAlreadyExists"
    by (cases err1; cases err2) auto
  then show ?thesis
  proof cases
    case src_fail
    then show ?thesis
      using assms
      by (simp add: Create_def Let_def call_checkoutSource_def did_def)
  next
    case created
    then show ?thesis
      using assms
      by (simp add: Create_def Let_def call_checkoutSource_def call_createServiceInRuntime_def
            call_writeService_def did_def)
  next
    case exists
    then show ?thesis
      using assms
      by (simp add: Create_def Let_def call_checkoutSource_def call_createServiceInRuntime_def
            call_writeService_def did_def)
  next
    case fail
    then show ?thesis
      using assms
      by (simp add: Create_def Let_def call_checkoutSource_def call_createServiceInRuntime_def
            did_def)
  qed
qed

text \<open>
  The theorem on a backend that already runs \<open>billing\<close> and reports it as running
  (the record is written with that status and \<open>Create\<close> succeeds), and on a backend
  that refuses the creation (the error is returned, nothing is written).
\<close>

theorem Create_without_builder_witness:
  "DefaultBuilder_nil env_exists
   \<and> Create env_exists billing \<lparr>Namespace = []\<rparr> w0 =
     (None,
      w0\<lparr>calls :=
           [CheckoutSource (Create_service env_exists billing \<lparr>Namespace = []\<rparr> w0),
            CreateServiceInRuntime (Create_service env_exists billing \<lparr>Namespace = []\<rparr> w0),
            WriteService
              \<lparr>Service = \<lparr>Name = ''billing'', Version = ''latest'', Source = ''./billing'',
                           Metadata = Some Map.empty, Status = Running\<rparr>,
               Options = \<lparr>Namespace = ''micro''\<rparr>, sStatus = Unknown, UpdatedAt = 1,
               sError = []\<rparr>]\<rparr>)
   \<and> Create env_micro billing \<lparr>Namespace = []\<rparr> w0 =
     (Some (ErrOther ''no capacity''),
      w0\<lparr>calls :=
           [CheckoutSource (Create_service env_micro billing \<lparr>Namespace = []\<rparr> w0),
            CreateServiceInRuntime (Create_service env_micro billing \<lparr>Namespace = []\<rparr> w0)]\<rparr>)"
  using Create_without_builder [of env_exists _ billing "\<lparr>Namespace = []\<rparr>" w0
          "''./billing''" None _ "()" _ "Some ErrAlreadyExists" _ "()" None _ "()",
          OF _ refl _ refl]
    Create_without_builder [of env_micro _ billing "\<lparr>Namespace = []\<rparr>" w0
          "''./billing''" None _ "()" _ "Some (ErrOther ''no capacity'')" _ "()" None _ "()",
          OF _ refl _ refl]
  by (simp add: env_exists_def env_micro_def env_pass_def env0_def w0_def billing_def
        Create_service_def)

text \<open>
  C7. Without a Builder, \<open>Update\<close> on an existing record replaces the source
  reference, checks it out, updates the service in the backend and then writes the
  record with status \<open>Starting\<close> and the empty error message; it returns what the
  write returned. When the checkout or the backend update fails, that error is
  returned and no store write is made.
\<close>

theorem Update_without_builder:
  assumes "DefaultBuilder_nil d"
    and "srv = (if length (Version srv0) = 0 then srv0\<lparr>Version := ''latest''\<rparr> else srv0)"
    and "ns = (if length (uNamespace opts) = 0 then DefaultNamespace d else uNamespace opts)"
    and "readServices d ns (filter_Service (Name srv) (Version srv)) (ext w) =
           ((s0 # rest, None), x0)"
    and "service = s0\<lparr>Service := (Service s0)\<lparr>Source := Source srv\<rparr>,
                      UpdatedAt := time_Now d x0\<rparr>"
    and "checkoutSource d service x0 = ((src, err1), service1, x1)"
    and "service2 = service1\<lparr>Service := (Service service1)\<lparr>Source := src\<rparr>\<rparr>"
    and "updateServiceInRuntime d service2 x1 = (err2, service3, x2)"
    and "service4 = service3\<lparr>sStatus := Starting, sError := []\<rparr>"
    and "writeService d service4 x2 = (err3, service5, x3)"
  shows
    "(err1 = None \<and> err2 = None \<longrightarrow>
        Update d srv0 opts w =
          (err3, w\<lparr>ext := x3,
                   calls := calls w @
                     [ReadServices ns (filter_Service (Name srv) (Version srv)),
                      CheckoutSource service, UpdateServiceInRuntime service2,
                      WriteService service4]\<rparr>)
      \<and> sStatus service4 = Starting \<and> sError service4 = [])
   \<and> (err1 \<noteq> None \<longrightarrow>
        Update d srv0 opts w =
          (err1, w\<lparr>ext := x1,
                   calls := calls w @
                     [ReadServices ns (filter_Service (Name srv) (Version srv)),
                      CheckoutSource service]\<rparr>))
   \<and> (err1 = None \<and> err2 \<noteq> None \<longrightarrow>
        Update d srv0 opts w =
          (err2, w\<lparr>ext := x2,
                   calls := calls w @
                     [ReadServices ns (filter_Service (Name srv) (Version srv)),
                      CheckoutSource service, UpdateServiceInRuntime service2]\<rparr>))"
proof -
  consider (src_fail) e where "err1 = Some e"
    | (updated) "err1 = None" "err2 = None"
    | (fail) e where "err1 = None" "err2 = Some e"
    by (cases err1; cases err2) auto
  then show ?thesis
  proof cases
    case src_fail
    then show ?thesis
      using assms
      by (cases "Version srv0 = []"; cases "uNamespace opts = []")
         (simp_all add: Update_def Let_def call_readServices_def call_checkoutSource_def did_def)
  next
    case updated
    then show ?thesis
      using assms
      by (cases "Version srv0 = []"; cases "uNamespace opts = []")
         (simp_all add: Update_def Let_def call_readServices_def call_checkoutSource_def
            call_updateServiceInRuntime_def call_writeService_def did_def)
  next
    case fail
    then show ?thesis
      using assms
      by (cases "Version srv0 = []"; cases "uNamespace opts = []")
         (simp_all add: Update_def Let_def call_readServices_def call_checkoutSource_def
            call_updateServiceInRuntime_def did_def)
  qed
qed

text \<open>
  The theorem on a store that holds \<open>billing\<close> with status \<open>Error\<close> and a message:
  the update writes it with status \<open>Starting\<close> and no message.
\<close>

theorem Update_without_builder_witness:
  "DefaultBuilder_nil
     (env_read [stored_billing\<lparr>sStatus := Error, sError := ''build failed''\<rparr>] [])
   \<and> Update (env_read [stored_billing\<lparr>sStatus := Error, sError := ''build failed''\<rparr>] [])
      update_billing \<lparr>uNamespace = ''micro''\<rparr> w0 =
     (None,
      w0\<lparr>calls :=
           [ReadServices ''micro'' (filter_Service ''billing'' ''latest''),
            CheckoutSource
              (stored_billing\<lparr>Service := (Service stored_billing)\<lparr>Source := ''./billing-v2''\<rparr>,
                              sStatus := Error, sError := ''build failed''\<rparr>),
            UpdateServiceInRuntime
              (stored_billing\<lparr>Service := (Service stored_billing)\<lparr>Source := ''./billing-v2''\<rparr>,
                              sStatus := Error, sError := ''build failed''\<rparr>),
            WriteService
              (stored_billing\<lparr>Service := (Service stored_billing)\<lparr>Source := ''./billing-v2''\<rparr>,
                              sStatus := Starting, sError := []\<rparr>)]\<rparr>)"
  using Update_without_builder
          [of "env_read [stored_billing\<lparr>sStatus := Error, sError := ''build failed''\<rparr>] []"
          _ update_billing _ "\<lparr>uNamespace = ''micro''\<rparr>" w0
          "stored_billing\<lparr>sStatus := Error, sError := ''build failed''\<rparr>" "[]" "()"
          _ "''./billing-v2''" None _ "()" _ None _ "()" _ None _ "()",
          OF _ refl refl _ refl _ refl _ refl]
  by (simp add: env_read_def env0_def w0_def update_billing_def stored_billing_def)

section \<open>Update and Delete\<close>

text \<open>
  C4. When the store read answers with no record and no error, \<open>Update\<close> and
  \<open>Delete\<close> return \<^verbatim>\<open>ErrNotFound\<close>. The world they leave differs from the one
  they found by that one read only: the collaborators are in the state \<open>x\<close> in which
  the read left them, no write, no delete and no backend call was made, and no
  goroutine was launched.
\<close>

theorem Update_Delete_NotFound:
  assumes "v = (if length (Version srv) = 0 then ''latest'' else Version srv)"
  shows
    "(readServices d
        (if length (uNamespace uopts) = 0 then DefaultNamespace d else uNamespace uopts)
        (filter_Service (Name srv) v) (ext w) = (([], None), x)
      \<longrightarrow> Update d srv uopts w =
            (Some ErrNotFound,
             w\<lparr>ext := x,
               calls := calls w @
                 [ReadServices (if length (uNamespace uopts) = 0 then DefaultNamespace d
                                else uNamespace uopts) (filter_Service (Name srv) v)]\<rparr>))
   \<and> (readServices d
        (if length (dNamespace dopts) = 0 then DefaultNamespace d else dNamespace dopts)
        (filter_Service (Name srv) v) (ext w) = (([], None), x)
      \<longrightarrow> Delete d srv dopts w =
            (Some ErrNotFound,
             w\<lparr>ext := x,
               calls := calls w @
                 [ReadServices (if length (dNamespace dopts) = 0 then DefaultNamespace d
                                else dNamespace dopts) (filter_Service (Name srv) v)]\<rparr>))"
  using assms
  by (simp add: Update_def Delete_def Let_def call_readServices_def did_def)

text \<open>The theorem on the empty store.\<close>

theorem Update_Delete_NotFound_witness:
  "readServices env0 ''micro'' (filter_Service ''billing'' ''latest'') (ext w0) = (([], None), ())
   \<and> Update env0 billing \<lparr>uNamespace = []\<rparr> w0 =
     (Some ErrNotFound,
      w0\<lparr>calls := [ReadServices ''micro'' (filter_Service ''billing'' ''latest'')]\<rparr>)
   \<and> Delete env0 billing \<lparr>dNamespace = []\<rparr> w0 =
     (Some ErrNotFound,
      w0\<lparr>calls := [ReadServices ''micro'' (filter_Service ''billing'' ''latest'')]\<rparr>)"
  using Update_Delete_NotFound [of "''latest''" billing env0 "\<lparr>uNamespace = []\<rparr>" w0 "()"
          "\<lparr>dNamespace = []\<rparr>"]
  by (simp add: env0_def w0_def billing_def)

text \<open>
  C5, amended. \<open>Delete\<close> on an existing record \<open>s0\<close> first asks the backend to delete
  the service. When the backend answers without error or with \<^verbatim>\<open>ErrNotFound\<close>, the
  store delete of \<open>s0\<close> is the next synchronous call and \<open>Delete\<close> returns what it
  returned; the blob store cleanup is a goroutine, launched only when the store
  delete succeeded, and nothing it does reaches the value \<open>Delete\<close> returns. Any
  other backend error is returned at once, with no store delete and no cleanup.
\<close>

theorem Delete_existing:
  assumes "srv = (if length (Version srv0) = 0 then srv0\<lparr>Version := ''latest''\<rparr> else srv0)"
    and "ns = (if length (dNamespace opts) = 0 then DefaultNamespace d else dNamespace opts)"
    and "readServices d ns (filter_Service (Name srv) (Version srv)) (ext w) =
           ((s0 # rest, None), x1)"
    and "mRuntime_Delete d srv opts x1 = (err1, x2)"
    and "deleteService d s0 x2 = (err2, s1, x3)"
  shows
    "(err1 = None \<or> err1 = Some ErrNotFound \<longrightarrow>
        fst (Delete d srv0 opts w) = err2
      \<and> calls (snd (Delete d srv0 opts w)) =
          calls w @ [ReadServices ns (filter_Service (Name srv) (Version srv)),
                     Runtime_Delete srv opts, DeleteService s0]
      \<and> ext (snd (Delete d srv0 opts w)) = x3
      \<and> spawned (snd (Delete d srv0 opts w)) =
          (if err2 = None then spawned w @ [CleanupBlobStore s1] else spawned w))
   \<and> (err1 \<noteq> None \<and> err1 \<noteq> Some ErrNotFound \<longrightarrow>
        Delete d srv0 opts w =
          (err1, w\<lparr>ext := x2,
                   calls := calls w @ [ReadServices ns (filter_Service (Name srv) (Version srv)),
                                       Runtime_Delete srv opts]\<rparr>))"
proof -
  consider (ok) "err1 = None \<or> err1 = Some ErrNotFound"
    | (fail) e where "err1 = Some e" "e \<noteq> ErrNotFound"
    by (cases err1) auto
  then show ?thesis
  proof cases
    case ok
    then have g: "\<not> (err1 \<noteq> None \<and> err1 \<noteq> Some ErrNotFound)" by simp
    show ?thesis
      using assms g
      by (cases err2; cases "Version srv0 = []"; cases "dNamespace opts = []")
         (simp_all add: Delete_def Let_def call_readServices_def call_mRuntime_Delete_def
            call_deleteService_def did_def go_def)
  next
    case fail
    show ?thesis
      using assms fail
      by (cases "Version srv0 = []"; cases "dNamespace opts = []")
         (simp_all add: Delete_def Let_def call_readServices_def call_mRuntime_Delete_def did_def)
  qed
qed

text \<open>
  The theorem on a store holding \<open>billing\<close>: once with a backend that answers
  \<^verbatim>\<open>ErrNotFound\<close>, once with a backend that answers another error.
\<close>

theorem Delete_existing_witness:
  "fst (Delete (env_delete ErrNotFound) delete_billing \<lparr>dNamespace = []\<rparr> w0) = None
   \<and> calls (snd (Delete (env_delete ErrNotFound) delete_billing \<lparr>dNamespace = []\<rparr> w0)) =
        [ReadServices ''micro'' (filter_Service ''billing'' ''latest''),
         Runtime_Delete delete_billing \<lparr>dNamespace = []\<rparr>, DeleteService stored_billing]
   \<and> spawned (snd (Delete (env_delete ErrNotFound) delete_billing \<lparr>dNamespace = []\<rparr> w0)) =
        [CleanupBlobStore stored_billing]
   \<and> fst (Delete (env_delete (ErrOther ''timeout'')) delete_billing \<lparr>dNamespace = []\<rparr> w0) =
        Some (ErrOther ''timeout'')"
  using Delete_existing [of delete_billing delete_billing "''micro''" "\<lparr>dNamespace = []\<rparr>"
          "env_delete ErrNotFound" w0 stored_billing "[]" "()" "Some ErrNotFound" "()" None
          stored_billing "()"]
    Delete_existing [of delete_billing delete_billing "''micro''" "\<lparr>dNamespace = []\<rparr>"
          "env_delete (ErrOther ''timeout'')" w0 stored_billing "[]" "()"
          "Some (ErrOther ''timeout'')" "()" None stored_billing "()"]
  by (simp add: env_delete_def env_read_def env0_def w0_def delete_billing_def)

text \<open>
  C5 as stated fails: the store holds \<open>billing\<close> and the backend answers the
  deletion with an error other than \<^verbatim>\<open>ErrNotFound\<close>. \<open>Delete\<close> returns that error
  after the store read and the backend call; the record is not deleted from the
  store.
\<close>

theorem Delete_backend_error_keeps_record:
  "readServices (env_delete (ErrOther ''backend unavailable''))
       ''micro'' (filter_Service ''billing'' ''latest'') () = (([stored_billing], None), ())
   \<and> Delete (env_delete (ErrOther ''backend unavailable'')) delete_billing
        \<lparr>dNamespace = []\<rparr> w0
      = (Some (ErrOther ''backend unavailable''),
         w0\<lparr>calls := [ReadServices ''micro'' (filter_Service ''billing'' ''latest''),
                      Runtime_Delete delete_billing \<lparr>dNamespace = []\<rparr>]\<rparr>)"
  by (simp add: Delete_def Let_def call_readServices_def call_mRuntime_Delete_def did_def
        env_delete_def env_read_def env0_def w0_def delete_billing_def)

section \<open>Start and Stop\<close>

text \<open>
  C9. \<open>Start\<close> on a manager whose flag is set returns \<^verbatim>\<open>nil\<close> and leaves the
  manager and the world as they are: the backend is not started again and no
  reconciliation goroutine is launched. \<open>Stop\<close> on a manager whose flag is not set
  returns \<^verbatim>\<open>nil\<close> and calls nothing. Hence a second \<open>Start\<close> right after any
  \<open>Start\<close>, and a second \<open>Stop\<close> right after any \<open>Stop\<close>, changes nothing.
\<close>

theorem Start_Stop_idempotent:
  "(running m1 \<longrightarrow> Start d m1 w = (None, m1, w))
   \<and> (\<not> running m2 \<longrightarrow> Stop d m2 w = (None, m2, w))
   \<and> (Start d m w = (r, m', w') \<longrightarrow> Start d m' w' = (None, m', w'))
   \<and> (Stop d m w = (r, m', w') \<longrightarrow> Stop d m' w' = (None, m', w'))"
  by (auto simp add: Start_def Stop_def Let_def split: if_splits prod.splits option.splits)

text \<open>
  The theorem on a stopped manager that is started twice, and on a running manager
  that is stopped twice.
\<close>

theorem Start_Stop_idempotent_witness:
  "Start env0 \<lparr>running = True\<rparr> w0 = (None, \<lparr>running = True\<rparr>, w0)
   \<and> Stop env0 \<lparr>running = False\<rparr> w0 = (None, \<lparr>running = False\<rparr>, w0)
   \<and> Start env0 \<lparr>running = False\<rparr> w0 =
        (None, \<lparr>running = True\<rparr>,
         w0\<lparr>calls := [DefaultRuntime_Start], spawned := [WatchServices]\<rparr>)
   \<and> Start env0 \<lparr>running = True\<rparr>
        (w0\<lparr>calls := [DefaultRuntime_Start], spawned := [WatchServices]\<rparr>) =
        (None, \<lparr>running = True\<rparr>,
         w0\<lparr>calls := [DefaultRuntime_Start], spawned := [WatchServices]\<rparr>)
   \<and> Stop env0 \<lparr>running = True\<rparr> w0 =
        (None, \<lparr>running = False\<rparr>, w0\<lparr>calls := [DefaultRuntime_Stop]\<rparr>)
   \<and> Stop env0 \<lparr>running = False\<rparr> (w0\<lparr>calls := [DefaultRuntime_Stop]\<rparr>) =
        (None, \<lparr>running = False\<rparr>, w0\<lparr>calls := [DefaultRuntime_Stop]\<rparr>)"
  using Start_Stop_idempotent [of "\<lparr>running = True\<rparr>" env0 w0 "\<lparr>running = False\<rparr>"
          "\<lparr>running = False\<rparr>" None "\<lparr>running = True\<rparr>"
          "w0\<lparr>calls := [DefaultRuntime_Start], spawned := [WatchServices]\<rparr>"]
    Start_Stop_idempotent [of "\<lparr>running = True\<rparr>" env0 w0 "\<lparr>running = False\<rparr>"
          "\<lparr>running = True\<rparr>" None "\<lparr>running = False\<rparr>"
          "w0\<lparr>calls := [DefaultRuntime_Stop]\<rparr>"]
  by (simp add: Start_def Stop_def call_DefaultRuntimeStart_def call_DefaultRuntimeStop_def
        did_def go_def env0_def w0_def)

section \<open>The reconciliation pass\<close>

lemma group_by_key_None:
  assumes "group_by_key xs (key s) = None" and "v \<in> set xs"
  shows "\<not> (Name v = Name s \<and> Version v = Version s)"
proof
  assume "Name v = Name s \<and> Version v = Version s"
  then have "key v = key s" by (simp add: key_def)
  with group_by_key_listed [OF assms(2)] have "\<exists>u. group_by_key xs (key s) = Some u"
    by simp
  then show False using assms(1) by simp
qed

lemma watch_srvs_calls:
  "\<exists>cs. calls (watch_srvs d live srvs w) = calls w @ cs
     \<and> (\<forall>s. CreateServiceInRuntime s \<in> set cs \<longleftrightarrow>
            s \<in> set srvs \<and> live (key (Service s)) = None
          \<and> sStatus s \<notin> {Error, Building, Stopped})"
proof (induction srvs arbitrary: w)
  case Nil
  then show ?case by simp
next
  case (Cons srv srvs)
  show ?case
  proof (cases "live (key (Service srv)) \<noteq> None \<or> sStatus srv \<in> {Error, Building, Stopped}")
    case True
    then have "watch_srvs d live (srv # srvs) w = watch_srvs d live srvs w"
      by auto
    then show ?thesis using Cons.IH [of w] True by auto
  next
    case False
    obtain err srv1 x where c: "createServiceInRuntime d srv (ext w) = (err, srv1, x)"
      by (cases "createServiceInRuntime d srv (ext w)") auto
    define w1 where "w1 = did (CreateServiceInRuntime srv) x w"
    define w2 where "w2 = (case err of None \<Rightarrow> w1
        | Some e \<Rightarrow> if logger_V d (ext w1)
                    then logged (Errorf ''Error restarting service: %v'' [LErr e]) w1 else w1)"
    have step: "watch_srvs d live (srv # srvs) w = watch_srvs d live srvs w2"
      using False c
      by (cases err) (simp_all add: call_createServiceInRuntime_def w1_def w2_def)
    have "\<exists>ls. calls w2 = calls w @ CreateServiceInRuntime srv # ls
                 \<and> (\<forall>s. CreateServiceInRuntime s \<notin> set ls)"
      by (cases err) (auto simp add: w2_def w1_def did_def logged_def)
    then obtain ls where ls: "calls w2 = calls w @ CreateServiceInRuntime srv # ls"
      "\<forall>s. CreateServiceInRuntime s \<notin> set ls" by blast
    from Cons.IH [of w2] obtain cs where cs: "calls (watch_srvs d live srvs w2) = calls w2 @ cs"
      "\<forall>s. CreateServiceInRuntime s \<in> set cs \<longleftrightarrow>
            s \<in> set srvs \<and> live (key (Service s)) = None
          \<and> sStatus s \<notin> {Error, Building, Stopped}"
      by blast
    have "calls (watch_srvs d live (srv # srvs) w) =
            calls w @ (CreateServiceInRuntime srv # ls @ cs)"
      using step ls(1) cs(1) by simp
    moreover have "\<forall>s. CreateServiceInRuntime s \<in> set (CreateServiceInRuntime srv # ls @ cs) \<longleftrightarrow>
            s \<in> set (srv # srvs) \<and> live (key (Service s)) = None
          \<and> sStatus s \<notin> {Error, Building, Stopped}"
      using False ls(2) cs(2) by auto
    ultimately show ?thesis by blast
  qed
qed

lemma watch_nss_single:
  assumes "readServices d ns (filter_Service [] []) (ext w) = ((srvs, None), x1)"
    and "runtimeRead d ns x1 = ((cur, e), x2)"
  shows "CreateServiceInRuntime s \<in> set (calls_since w (watch_nss d [ns] w)) \<longleftrightarrow>
           s \<in> set srvs \<and> group_by_key cur (key (Service s)) = None
         \<and> sStatus s \<notin> {Error, Building, Stopped}"
proof -
  define w2 where
    "w2 = w\<lparr>ext := x2, calls := calls w @ [ReadServices ns (filter_Service [] []), runtime_Read ns]\<rparr>"
  have step: "watch_nss d [ns] w = watch_srvs d (group_by_key cur) srvs w2"
    using assms by (simp add: call_readServices_def call_runtimeRead_def did_def w2_def)
  from watch_srvs_calls [of d "group_by_key cur" srvs w2]
  obtain cs where cs: "calls (watch_srvs d (group_by_key cur) srvs w2) = calls w2 @ cs"
    "\<forall>s. CreateServiceInRuntime s \<in> set cs \<longleftrightarrow>
          s \<in> set srvs \<and> group_by_key cur (key (Service s)) = None
        \<and> sStatus s \<notin> {Error, Building, Stopped}"
    by blast
  have "calls_since w (watch_nss d [ns] w) =
          [ReadServices ns (filter_Service [] []), runtime_Read ns] @ cs"
    using step cs(1) by (simp add: calls_since_def w2_def)
  then show ?thesis using cs(2) by simp
qed

lemma watch_nss_calls:
  "\<exists>cs. calls (watch_nss d nss w) = calls w @ cs
     \<and> (\<forall>s. CreateServiceInRuntime s \<in> set cs \<longrightarrow>
            sStatus s \<notin> {Error, Building, Stopped}
          \<and> (\<exists>ns\<in>set nss. \<exists>x srvs x1 cur e x2.
                 readServices d ns (filter_Service [] []) x = ((srvs, None), x1)
               \<and> runtimeRead d ns x1 = ((cur, e), x2)
               \<and> s \<in> set srvs
               \<and> (\<forall>v\<in>set cur. \<not> (Name v = Name (Service s) \<and> Version v = Version (Service s)))))"
proof (induction nss arbitrary: w)
  case Nil
  then show ?case by simp
next
  case (Cons ns nss)
  obtain srvs err x1 where r: "readServices d ns (filter_Service [] []) (ext w) = ((srvs, err), x1)"
    by (cases "readServices d ns (filter_Service [] []) (ext w)") auto
  define w1 where "w1 = did (ReadServices ns (filter_Service [] [])) x1 w"
  show ?case
  proof (cases err)
    case (Some e)
    then have "calls (watch_nss d (ns # nss) w) =
        calls w @ [ReadServices ns (filter_Service [] []),
                   Warnf ''Error reading services from the %v namespace: %v'' [LStr ns, LErr e]]"
      using r by (simp add: call_readServices_def did_def logged_def)
    then show ?thesis by simp
  next
    case None
    obtain cur e x2 where rr: "runtimeRead d ns x1 = ((cur, e), x2)"
      by (cases "runtimeRead d ns x1") auto
    define w2 where "w2 = did (runtime_Read ns) x2 w1"
    define w3 where "w3 = watch_srvs d (group_by_key cur) srvs w2"
    have step: "watch_nss d (ns # nss) w = watch_nss d nss w3"
      using r None rr
      by (simp add: call_readServices_def call_runtimeRead_def w1_def w2_def w3_def did_def)
    have c2: "calls w2 = calls w @ [ReadServices ns (filter_Service [] []), runtime_Read ns]"
      by (simp add: w2_def w1_def did_def)
    from watch_srvs_calls [of d "group_by_key cur" srvs w2]
    obtain cs where cs: "calls w3 = calls w2 @ cs"
      "\<forall>s. CreateServiceInRuntime s \<in> set cs \<longrightarrow>
            s \<in> set srvs \<and> group_by_key cur (key (Service s)) = None
          \<and> sStatus s \<notin> {Error, Building, Stopped}"
      unfolding w3_def by blast
    from Cons.IH [of w3]
    obtain ds where ds: "calls (watch_nss d nss w3) = calls w3 @ ds"
      "\<forall>s. CreateServiceInRuntime s \<in> set ds \<longrightarrow>
            sStatus s \<notin> {Error, Building, Stopped}
          \<and> (\<exists>ns\<in>set nss. \<exists>x srvs x1 cur e x2.
                 readServices d ns (filter_Service [] []) x = ((srvs, None), x1)
               \<and> runtimeRead d ns x1 = ((cur, e), x2)
               \<and> s \<in> set srvs
               \<and> (\<forall>v\<in>set cur. \<not> (Name v = Name (Service s) \<and> Version v = Version (Service s))))"
      by blast
    let ?all = "[ReadServices ns (filter_Service [] []), runtime_Read ns] @ cs @ ds"
    have eq: "calls (watch_nss d (ns # nss) w) = calls w @ ?all"
      using step c2 cs(1) ds(1) by simp
    have "sStatus s \<notin> {Error, Building, Stopped}
          \<and> (\<exists>ns'\<in>set (ns # nss). \<exists>x srvs x1 cur e x2.
                 readServices d ns' (filter_Service [] []) x = ((srvs, None), x1)
               \<and> runtimeRead d ns' x1 = ((cur, e), x2)
               \<and> s \<in> set srvs
               \<and> (\<forall>v\<in>set cur. \<not> (Name v = Name (Service s) \<and> Version v = Version (Service s))))"
      if mem: "CreateServiceInRuntime s \<in> set ?all" for s
    proof -
      from mem consider (here) "CreateServiceInRuntime s \<in> set cs"
        | (later) "CreateServiceInRuntime s \<in> set ds" by auto
      then show ?thesis
      proof cases
        case here
        with cs(2) have h: "s \<in> set srvs" "group_by_key cur (key (Service s)) = None"
          "sStatus s \<notin> {Error, Building, Stopped}" by auto
        have "\<forall>v\<in>set cur. \<not> (Name v = Name (Service s) \<and> Version v = Version (Service s))"
          using group_by_key_None [OF h(2)] by blast
        with h(1,3) r None rr show ?thesis
          by (intro conjI bexI [of _ ns]) (simp, blast, simp)
      next
        case later
        with ds(2) show ?thesis by (metis list.set_intros(2))
      qed
    qed
    with eq show ?thesis by blast
  qed
qed

text \<open>
  C8. Every backend creation that a pass of \<open>watchServices\<close> attempts is for a stored
  service whose status is none of \<open>Error\<close>, \<open>Building\<close>, \<open>Stopped\<close>. It is a service
  \<open>srv\<close> that the store returned for one of the listed namespaces \<open>ns\<close>, and the
  backend's answer \<open>cur\<close> for that namespace, read right after the stored services
  (in the state \<open>x1\<close> the store read left), reports no live service with the name
  and version of \<open>srv\<close>. In the turn of one namespace, from any world \<open>w'\<close>, the
  creations attempted are those of the stored services that have no entry under
  their \<^verbatim>\<open>name:version\<close> key in the map of live services and whose status is none of
  the three, and no other.
\<close>

theorem watchServices_creates_only_eligible:
  "(CreateServiceInRuntime srv \<in> set (calls_since w (watchServices d w)) \<longrightarrow>
      sStatus srv \<noteq> Error \<and> sStatus srv \<noteq> Building \<and> sStatus srv \<noteq> Stopped
    \<and> (\<exists>nss x0 ns x srvs x1 cur e x2.
          listNamespaces d (ext w) = ((nss, None), x0) \<and> ns \<in> set nss
        \<and> readServices d ns (filter_Service [] []) x = ((srvs, None), x1)
        \<and> runtimeRead d ns x1 = ((cur, e), x2)
        \<and> srv \<in> set srvs
        \<and> (\<forall>v\<in>set cur. \<not> (Name v = Name (Service srv) \<and> Version v = Version (Service srv)))))
   \<and> (readServices d ns' (filter_Service [] []) (ext w') = ((srvs', None), x1')
       \<and> runtimeRead d ns' x1' = ((cur', e'), x2') \<longrightarrow>
      (CreateServiceInRuntime s \<in> set (calls_since w' (watch_nss d [ns'] w')) \<longleftrightarrow>
         s \<in> set srvs' \<and> group_by_key cur' (key (Service s)) = None
       \<and> sStatus s \<noteq> Error \<and> sStatus s \<noteq> Building \<and> sStatus s \<noteq> Stopped)
    \<and> (CreateServiceInRuntime s \<in> set (calls_since w' (watch_nss d [ns'] w')) \<longrightarrow>
         (\<forall>v\<in>set cur'. \<not> (Name v = Name (Service s) \<and> Version v = Version (Service s)))))"
proof (intro conjI impI)
  assume mem: "CreateServiceInRuntime srv \<in> set (calls_since w (watchServices d w))"
  obtain nss err x0 where l: "listNamespaces d (ext w) = ((nss, err), x0)"
    by (cases "listNamespaces d (ext w)") auto
  define w1 where "w1 = did ListNamespaces x0 w"
  have *: "sStatus srv \<notin> {Error, Building, Stopped}
       \<and> (\<exists>nss x0 ns x srvs x1 cur e x2.
             listNamespaces d (ext w) = ((nss, None), x0) \<and> ns \<in> set nss
           \<and> readServices d ns (filter_Service [] []) x = ((srvs, None), x1)
           \<and> runtimeRead d ns x1 = ((cur, e), x2)
           \<and> srv \<in> set srvs
           \<and> (\<forall>v\<in>set cur. \<not> (Name v = Name (Service srv) \<and> Version v = Version (Service srv))))"
  proof (cases err)
    case (Some e)
    then have "calls_since w (watchServices d w) =
        [ListNamespaces, Warnf ''Error listing namespaces: %v'' [LErr e]]"
      using l
      by (simp add: watchServices_def call_listNamespaces_def did_def logged_def calls_since_def)
    with mem show ?thesis by simp
  next
    case None
    then have ws: "watchServices d w = watch_nss d nss w1"
      using l by (simp add: watchServices_def call_listNamespaces_def w1_def)
    from watch_nss_calls [of d nss w1]
    obtain cs where cs: "calls (watch_nss d nss w1) = calls w1 @ cs"
      "\<forall>s. CreateServiceInRuntime s \<in> set cs \<longrightarrow>
            sStatus s \<notin> {Error, Building, Stopped}
          \<and> (\<exists>ns\<in>set nss. \<exists>x srvs x1 cur e x2.
                 readServices d ns (filter_Service [] []) x = ((srvs, None), x1)
               \<and> runtimeRead d ns x1 = ((cur, e), x2)
               \<and> s \<in> set srvs
               \<and> (\<forall>v\<in>set cur. \<not> (Name v = Name (Service s) \<and> Version v = Version (Service s))))"
      by blast
    have "calls_since w (watchServices d w) = ListNamespaces # cs"
      using ws cs(1) by (simp add: calls_since_def w1_def did_def)
    with mem have "CreateServiceInRuntime srv \<in> set cs" by simp
    with cs(2) have "sStatus srv \<notin> {Error, Building, Stopped}"
      and "\<exists>ns\<in>set nss. \<exists>x srvs x1 cur e x2.
                 readServices d ns (filter_Service [] []) x = ((srvs, None), x1)
               \<and> runtimeRead d ns x1 = ((cur, e), x2)
               \<and> srv \<in> set srvs
               \<and> (\<forall>v\<in>set cur. \<not> (Name v = Name (Service srv) \<and> Version v = Version (Service srv)))"
      by blast+
    then show ?thesis
      using l None by blast
  qed
  from * show "sStatus srv \<noteq> Error" and "sStatus srv \<noteq> Building" and "sStatus srv \<noteq> Stopped"
    by simp_all
  from * show "\<exists>nss x0 ns x srvs x1 cur e x2.
             listNamespaces d (ext w) = ((nss, None), x0) \<and> ns \<in> set nss
           \<and> readServices d ns (filter_Service [] []) x = ((srvs, None), x1)
           \<and> runtimeRead d ns x1 = ((cur, e), x2)
           \<and> srv \<in> set srvs
           \<and> (\<forall>v\<in>set cur. \<not> (Name v = Name (Service srv) \<and> Version v = Version (Service srv)))"
    by blast
next
  assume a: "readServices d ns' (filter_Service [] []) (ext w') = ((srvs', None), x1')
       \<and> runtimeRead d ns' x1' = ((cur', e'), x2')"
  then show "CreateServiceInRuntime s \<in> set (calls_since w' (watch_nss d [ns'] w')) \<longleftrightarrow>
         s \<in> set srvs' \<and> group_by_key cur' (key (Service s)) = None
       \<and> sStatus s \<noteq> Error \<and> sStatus s \<noteq> Building \<and> sStatus s \<noteq> Stopped"
    using watch_nss_single [of d ns' w' srvs' x1' cur' e' x2' s] by simp
next
  assume a: "readServices d ns' (filter_Service [] []) (ext w') = ((srvs', None), x1')
       \<and> runtimeRead d ns' x1' = ((cur', e'), x2')"
    and mem: "CreateServiceInRuntime s \<in> set (calls_since w' (watch_nss d [ns'] w'))"
  then have "group_by_key cur' (key (Service s)) = None"
    using watch_nss_single [of d ns' w' srvs' x1' cur' e' x2' s] by simp
  then show "\<forall>v\<in>set cur'. \<not> (Name v = Name (Service s) \<and> Version v = Version (Service s))"
    using group_by_key_None by blast
qed

text \<open>
  The theorem on a pass over the namespace \<open>micro\<close>, whose store holds \<open>web\<close> with
  status \<open>Error\<close> and \<open>billing\<close> with no status, none of them live: only \<open>billing\<close>
  is created.
\<close>

theorem watchServices_creates_only_eligible_witness:
  "CreateServiceInRuntime stored_billing \<in> set (calls_since w0 (watchServices env_micro w0))
   \<and> calls_since w0 (watchServices env_micro w0) =
     [ListNamespaces, ReadServices ''micro'' (filter_Service [] []), runtime_Read ''micro'',
      CreateServiceInRuntime stored_billing,
      Errorf ''Error restarting service: %v'' [LErr (ErrOther ''no capacity'')]]
   \<and> sStatus stored_billing \<noteq> Error \<and> sStatus stored_billing \<noteq> Building
   \<and> sStatus stored_billing \<noteq> Stopped
   \<and> CreateServiceInRuntime stored_billing \<in> set (calls_since w0 (watch_nss env_micro [''micro''] w0))
   \<and> CreateServiceInRuntime stored_web \<notin> set (calls_since w0 (watch_nss env_micro [''micro''] w0))"
  using watchServices_creates_only_eligible [of stored_billing w0 env_micro "''micro''" w0
          "[stored_web, stored_billing]" "()" "[]" None "()" stored_billing]
    watchServices_creates_only_eligible [of stored_billing w0 env_micro "''micro''" w0
          "[stored_web, stored_billing]" "()" "[]" None "()" stored_web]
  by (simp add: watchServices_def call_listNamespaces_def call_readServices_def
        call_runtimeRead_def call_createServiceInRuntime_def did_def logged_def calls_since_def
        env_micro_def env_pass_def env0_def w0_def stored_billing_def stored_web_def
        group_by_key_def key_def)

lemma watch_nss_failed_read:
  assumes "readServices d ns (filter_Service [] []) (ext w) = ((srvs, Some e), x)"
  shows "watch_nss d (ns # rest) w =
           w\<lparr>ext := x,
             calls := calls w @
               [ReadServices ns (filter_Service [] []),
                Warnf ''Error reading services from the %v namespace: %v'' [LStr ns, LErr e]]\<rparr>"
  using assms by (simp add: call_readServices_def did_def logged_def)

lemma watch_nss_skips_rest:
  assumes "\<forall>x. snd (fst (readServices d ns (filter_Service [] []) x)) \<noteq> None"
  shows "watch_nss d (pre @ ns # rest) w = watch_nss d (pre @ [ns]) w"
proof (induction pre arbitrary: w)
  case Nil
  obtain srvs err x where r: "readServices d ns (filter_Service [] []) (ext w) = ((srvs, err), x)"
    by (cases "readServices d ns (filter_Service [] []) (ext w)") auto
  with assms obtain e where "err = Some e"
    by (metis fst_conv snd_conv not_None_eq)
  with r have r': "readServices d ns (filter_Service [] []) (ext w) = ((srvs, Some e), x)"
    by simp
  show ?case
    by (simp only: append_Nil watch_nss_failed_read [OF r'])
next
  case (Cons p pre)
  obtain srvs err x where r: "readServices d p (filter_Service [] []) (ext w) = ((srvs, err), x)"
    by (cases "readServices d p (filter_Service [] []) (ext w)") auto
  show ?case
  proof (cases err)
    case (Some e)
    with r have r': "readServices d p (filter_Service [] []) (ext w) = ((srvs, Some e), x)"
      by simp
    show ?thesis
      by (simp only: append_Cons watch_nss_failed_read [OF r'])
  next
    case None
    obtain cur e1 x2 where rr: "runtimeRead d p x = ((cur, e1), x2)"
      by (cases "runtimeRead d p x") auto
    from r None rr Cons.IH show ?thesis
      by (simp add: call_readServices_def call_runtimeRead_def did_def)
  qed
qed

text \<open>
  C10. In a pass over the namespaces, a failed read of the stored services of \<open>ns\<close>
  ends the pass after the warning: the world left is the one found plus that read
  and the warning, whatever namespaces \<open>rest\<close> follow, and when the read of \<open>ns\<close>
  fails in every state, the namespaces after \<open>ns\<close> add nothing to the pass over
  those up to \<open>ns\<close>. A failed creation of a service \<open>srv\<close> does not end anything: it
  is handed to the logger (when the logger takes the error level) and the loop goes
  on with the services that follow, in the state the failed call left. After the
  services of a namespace whose read succeeded, the pass goes on with the namespaces
  that follow.
\<close>

theorem watchServices_failures:
  "(readServices d ns (filter_Service [] []) (ext w) = ((srvs, Some e), x) \<longrightarrow>
      watch_nss d (ns # rest) w =
        w\<lparr>ext := x,
          calls := calls w @
            [ReadServices ns (filter_Service [] []),
             Warnf ''Error reading services from the %v namespace: %v'' [LStr ns, LErr e]]\<rparr>)
   \<and> ((\<forall>y. snd (fst (readServices d ns (filter_Service [] []) y)) \<noteq> None) \<longrightarrow>
      watch_nss d (pre @ ns # rest) w = watch_nss d (pre @ [ns]) w)
   \<and> (live (key (Service srv)) = None \<and> sStatus srv \<noteq> Error \<and> sStatus srv \<noteq> Building
       \<and> sStatus srv \<noteq> Stopped \<and> createServiceInRuntime d srv (ext w) = (Some e', srv', x') \<longrightarrow>
      watch_srvs d live (srv # others) w =
        watch_srvs d live others
          (w\<lparr>ext := x',
             calls := calls w @ CreateServiceInRuntime srv #
               (if logger_V d x' then [Errorf ''Error restarting service: %v'' [LErr e']]
                else [])\<rparr>))
   \<and> (readServices d ns (filter_Service [] []) (ext w) = ((srvs, None), x)
       \<and> runtimeRead d ns x = ((cur, e1), x2) \<longrightarrow>
      watch_nss d (ns # rest) w =
        watch_nss d rest
          (watch_srvs d (group_by_key cur) srvs
             (w\<lparr>ext := x2,
                calls := calls w @ [ReadServices ns (filter_Service [] []), runtime_Read ns]\<rparr>)))"
proof (intro conjI impI)
  assume "readServices d ns (filter_Service [] []) (ext w) = ((srvs, Some e), x)"
  then show "watch_nss d (ns # rest) w =
        w\<lparr>ext := x,
          calls := calls w @
            [ReadServices ns (filter_Service [] []),
             Warnf ''Error reading services from the %v namespace: %v'' [LStr ns, LErr e]]\<rparr>"
    by (rule watch_nss_failed_read)
next
  assume "\<forall>y. snd (fst (readServices d ns (filter_Service [] []) y)) \<noteq> None"
  then show "watch_nss d (pre @ ns # rest) w = watch_nss d (pre @ [ns]) w"
    by (rule watch_nss_skips_rest)
next
  assume "live (key (Service srv)) = None \<and> sStatus srv \<noteq> Error \<and> sStatus srv \<noteq> Building
       \<and> sStatus srv \<noteq> Stopped \<and> createServiceInRuntime d srv (ext w) = (Some e', srv', x')"
  then show "watch_srvs d live (srv # others) w =
        watch_srvs d live others
          (w\<lparr>ext := x',
             calls := calls w @ CreateServiceInRuntime srv #
               (if logger_V d x' then [Errorf ''Error restarting service: %v'' [LErr e']]
                else [])\<rparr>)"
    by (simp add: call_createServiceInRuntime_def did_def logged_def)
next
  assume "readServices d ns (filter_Service [] []) (ext w) = ((srvs, None), x)
       \<and> runtimeRead d ns x = ((cur, e1), x2)"
  then show "watch_nss d (ns # rest) w =
        watch_nss d rest
          (watch_srvs d (group_by_key cur) srvs
             (w\<lparr>ext := x2,
                calls := calls w @ [ReadServices ns (filter_Service [] []), runtime_Read ns]\<rparr>))"
    by (simp add: call_readServices_def call_runtimeRead_def did_def)
qed

text \<open>
  The theorem on the store that cannot be read for \<open>staging\<close> and the backend that
  refuses every creation: the pass over \<open>staging\<close> and \<open>micro\<close> stops at \<open>staging\<close>,
  and both creations of a pass over two services are attempted and logged.
\<close>

theorem watchServices_failures_witness:
  "watch_nss env_pass [''staging'', ''micro''] w0 =
     w0\<lparr>calls := [ReadServices ''staging'' (filter_Service [] []),
                  Warnf ''Error reading services from the %v namespace: %v''
                    [LStr ''staging'', LErr (ErrOther ''store unavailable'')]]\<rparr>
   \<and> watch_nss env_pass [''micro'', ''staging'', ''micro''] w0 =
       watch_nss env_pass [''micro'', ''staging''] w0
   \<and> watch_srvs env_pass Map.empty [stored_billing, stored_billing] w0 =
       w0\<lparr>calls := [CreateServiceInRuntime stored_billing,
                    Errorf ''Error restarting service: %v'' [LErr (ErrOther ''no capacity'')],
                    CreateServiceInRuntime stored_billing,
                    Errorf ''Error restarting service: %v'' [LErr (ErrOther ''no capacity'')]]\<rparr>"
  using watchServices_failures [of env_pass "''staging''" w0 "[]"
          "ErrOther ''store unavailable''" "()" "[''micro'']" "[''micro'']" Map.empty
          stored_billing "ErrOther ''no capacity''" stored_billing "()" "[stored_billing]"]
  by (simp add: call_createServiceInRuntime_def did_def logged_def
        env_pass_def env0_def w0_def stored_billing_def key_def)

end
